theory Spec2Isabelle
  imports Main
begin

section \<open>JavaScript values and promises\<close>

text \<open>
  The values that travel through the wrapper: what \<open>JSON.parse\<close> can produce, the two
  absent markers \<open>undefined\<close> and \<open>null\<close>, and \<open>Error\<close> objects (carrying their message).
\<close>

datatype jsval =
    Undefined
  | Null
  | JBool bool
  | JNum int
  | JStr string
  | JArr "jsval list"
  | JObj "(string \<times> jsval) list"
  | JError string

text \<open>\<open>v == null\<close> in JavaScript: true of \<open>null\<close> and of \<open>undefined\<close>, of nothing else.\<close>

definition absent :: "jsval \<Rightarrow> bool" where
  "absent v = (v = Null \<or> v = Undefined)"

text \<open>
  A promise is pending until the first call of its \<open>resolve\<close> or \<open>reject\<close> handler; every
  later call of either handler is ignored.
\<close>

datatype promise = Pending | Resolved jsval | Rejected jsval

definition resolve :: "jsval \<Rightarrow> promise \<Rightarrow> promise" where
  "resolve v p = (case p of Pending \<Rightarrow> Resolved v | Resolved x \<Rightarrow> Resolved x | Rejected x \<Rightarrow> Rejected x)"

definition reject :: "jsval \<Rightarrow> promise \<Rightarrow> promise" where
  "reject e p = (case p of Pending \<Rightarrow> Rejected e | Resolved x \<Rightarrow> Resolved x | Rejected x \<Rightarrow> Rejected x)"

text \<open>
  The built-in \<open>JSON\<close> object is a parameter of the model: \<open>parse s = None\<close> when
  \<open>JSON.parse\<close> throws a SyntaxError on the string \<open>s\<close>; \<open>stringify v\<close> is the text that
  reaches the store for the value \<open>v\<close>.
\<close>

record json =
  parse :: "string \<Rightarrow> jsval option"
  stringify :: "jsval \<Rightarrow> string"

text \<open>
  \<open>JSON.parse\<close> applied to a reply of the store: a \<open>null\<close> reply is converted to the
  text \<open>null\<close>, which parses to \<open>null\<close>.
\<close>

definition JSON_parse :: "json \<Rightarrow> string option \<Rightarrow> jsval option" where
  "JSON_parse J str = (case str of None \<Rightarrow> Some Null | Some s \<Rightarrow> parse J s)"

text \<open>
  Modelled from the spec: \<open>utils.safeJSONParse\<close> belongs to the package
  \<open>@flywheelsports/jsutils\<close>, whose source is not part of the repository. The specification
  asks for defensive deserialization: malformed stored JSON yields an absent marker instead
  of a parse error. The marker chosen here is \<open>undefined\<close>; the theorems below only use that
  it satisfies \<open>absent\<close>.
\<close>

definition safeJSONParse :: "json \<Rightarrow> string option \<Rightarrow> jsval" where
  "safeJSONParse J str = (case JSON_parse J str of None \<Rightarrow> Undefined | Some data \<Rightarrow> data)"

text \<open>Truthiness of a reply of \<open>GET\<close>: \<open>null\<close> and the empty string are falsy.\<close>

definition truthy :: "string option \<Rightarrow> bool" where
  "truthy result = (case result of None \<Rightarrow> False | Some s \<Rightarrow> s \<noteq> [])"


section \<open>The store and its driver\<close>

datatype command =
    SELECT int
  | GET string
  | SETEX string int string
  | EXPIRE string int
  | DEL string

text \<open>
  What happens at the boundary of the wrapper, in order: a client is created
  (\<open>redis.createClient\<close>), a command is sent on a client, a client is ended (\<open>db.end\<close>),
  the caller's fallback is invoked.
\<close>

datatype event =
    Connect nat "int option" "string option"
  | Cmd nat command
  | End nat
  | CallFallback

text \<open>
  The world outside the wrapper. \<open>store w d k\<close> is the entry of key \<open>k\<close> in logical
  database \<open>d\<close>: its string and its seconds to live. \<open>faults w n\<close> tells whether the
  \<open>n\<close>-th command sent to the store fails (connection lost, command refused), and with
  which message; \<open>clock\<close> counts the commands sent so far. Time does not pass in the model:
  no entry expires by itself.
\<close>

record world =
  store :: "int \<Rightarrow> string \<Rightarrow> (string \<times> int) option"
  faults :: "nat \<Rightarrow> string option"
  clock :: nat
  next_client :: nat
  trace :: "event list"

record client =
  cid :: nat
  seldb :: int

definition issue :: "nat \<Rightarrow> command \<Rightarrow> world \<Rightarrow> string option \<times> world" where
  "issue i cmd w =
     (faults w (clock w), w\<lparr>clock := Suc (clock w), trace := trace w @ [Cmd i cmd]\<rparr>)"

definition createClient :: "int option \<Rightarrow> string option \<Rightarrow> world \<Rightarrow> nat \<times> world" where
  "createClient p u w =
     (next_client w,
      w\<lparr>next_client := Suc (next_client w), trace := trace w @ [Connect (next_client w) p u]\<rparr>)"

definition db_select :: "nat \<Rightarrow> int \<Rightarrow> world \<Rightarrow> (string + string) \<times> world" where
  "db_select i d w =
     (case issue i (SELECT d) w of
        (Some err, w1) \<Rightarrow> (Inl err, w1)
      | (None, w1) \<Rightarrow> (Inr ''OK'', w1))"

definition db_get :: "client \<Rightarrow> string \<Rightarrow> world \<Rightarrow> (string + string option) \<times> world" where
  "db_get dbObj k w =
     (case issue (cid dbObj) (GET k) w of
        (Some error, w1) \<Rightarrow> (Inl error, w1)
      | (None, w1) \<Rightarrow> (Inr (map_option fst (store w1 (seldb dbObj) k)), w1))"

definition db_setex ::
  "client \<Rightarrow> string \<Rightarrow> int \<Rightarrow> string \<Rightarrow> world \<Rightarrow> (string + string) \<times> world" where
  "db_setex dbObj k secs v w =
     (case issue (cid dbObj) (SETEX k secs v) w of
        (Some error, w1) \<Rightarrow> (Inl error, w1)
      | (None, w1) \<Rightarrow>
          (Inr ''OK'',
           w1\<lparr>store := (store w1)(seldb dbObj := (store w1 (seldb dbObj))(k \<mapsto> (v, secs)))\<rparr>))"

definition db_expire :: "client \<Rightarrow> string \<Rightarrow> int \<Rightarrow> world \<Rightarrow> (string + int) \<times> world" where
  "db_expire dbObj k secs w =
     (case issue (cid dbObj) (EXPIRE k secs) w of
        (Some error, w1) \<Rightarrow> (Inl error, w1)
      | (None, w1) \<Rightarrow>
          (case store w1 (seldb dbObj) k of
             None \<Rightarrow> (Inr 0, w1)
           | Some (v, old) \<Rightarrow>
               (Inr 1,
                w1\<lparr>store := (store w1)(seldb dbObj :=
                      (store w1 (seldb dbObj))(k := (if secs \<le> 0 then None else Some (v, secs))))\<rparr>)))"

definition db_del :: "client \<Rightarrow> string \<Rightarrow> world \<Rightarrow> (string + int) \<times> world" where
  "db_del dbObj k w =
     (case issue (cid dbObj) (DEL k) w of
        (Some error, w1) \<Rightarrow> (Inl error, w1)
      | (None, w1) \<Rightarrow>
          (case store w1 (seldb dbObj) k of
             None \<Rightarrow> (Inr 0, w1)
           | Some entry \<Rightarrow>
               (Inr 1,
                w1\<lparr>store := (store w1)(seldb dbObj := (store w1 (seldb dbObj))(k := None))\<rparr>)))"

text \<open>The events appended to the trace between two worlds.\<close>

definition events_since :: "world \<Rightarrow> world \<Rightarrow> event list" where
  "events_since w w' = drop (length (trace w)) (trace w')"

fun connected :: "event list \<Rightarrow> nat list" where
  "connected [] = []"
| "connected (Connect i p u # es) = i # connected es"
| "connected (e # es) = connected es"

text \<open>The clients that were created and never ended.\<close>

definition left_open :: "event list \<Rightarrow> nat list" where
  "left_open es = filter (\<lambda>i. End i \<notin> set es) (connected es)"

fun writes :: "event list \<Rightarrow> event list" where
  "writes [] = []"
| "writes (Cmd i (SETEX k secs v) # es) = Cmd i (SETEX k secs v) # writes es"
| "writes (e # es) = writes es"

text \<open>The keys with which the data commands of a trace address the store.\<close>

fun keys_of :: "event list \<Rightarrow> string list" where
  "keys_of [] = []"
| "keys_of (Cmd i (GET k) # es) = k # keys_of es"
| "keys_of (Cmd i (SETEX k secs v) # es) = k # keys_of es"
| "keys_of (Cmd i (EXPIRE k secs) # es) = k # keys_of es"
| "keys_of (Cmd i (DEL k) # es) = k # keys_of es"
| "keys_of (e # es) = keys_of es"


section \<open>CacheDB\<close>

text \<open>
  The argument of \<open>init\<close>, each field possibly missing, and the configuration held after
  \<open>Object.assign({db: 1}, config)\<close>.
\<close>

record config_arg =
  arg_url :: "string option"
  arg_port :: "int option"
  arg_db :: "int option"

record config =
  url :: "string option"
  port :: "int option"
  db :: int

text \<open>
  The instance state. Both fields are \<open>undefined\<close> (\<open>None\<close>) on a new instance, until \<open>init\<close>
  sets them.
\<close>

record cacher =
  config :: "config option"
  cachePrefix :: "string option"

definition new_Cacher :: cacher where
  "new_Cacher = \<lparr>config = None, cachePrefix = None\<rparr>"

definition CacheDB_init :: "config_arg \<Rightarrow> cacher \<Rightarrow> cacher" where
  "CacheDB_init cfg c =
     c\<lparr>config := Some \<lparr>url = arg_url cfg, port = arg_port cfg,
                        db = (case arg_db cfg of None \<Rightarrow> 1 | Some d \<Rightarrow> d)\<rparr>\<rparr>"

text \<open>
  \<open>openDB\<close> has three outcomes: reading \<open>this.config.port\<close> throws a TypeError when \<open>init\<close>
  was never called; the returned promise rejects when \<open>SELECT\<close> fails; it resolves with
  the client otherwise.
\<close>

datatype opened = Threw jsval | SelectFailed jsval | Opened client

definition openDB :: "cacher \<Rightarrow> world \<Rightarrow> opened \<times> world" where
  "openDB c w =
     (case config c of
        None \<Rightarrow> (Threw (JError ''TypeError''), w)
      | Some cfg \<Rightarrow>
          (case createClient (port cfg) (url cfg) w of
             (i, w1) \<Rightarrow>
               (case db_select i (db cfg) w1 of
                  (Inl err, w2) \<Rightarrow> (SelectFailed (JError err), w2)
                | (Inr reply, w2) \<Rightarrow> (Opened \<lparr>cid = i, seldb = db cfg\<rparr>, w2))))"

text \<open>
  \<open>closeDB(db)\<close> is \<open>db.end(0)\<close>. Called with \<open>db = null\<close> it throws a TypeError and
  ends nothing; the callers below do so only inside a \<open>catch\<close> handler, after the promise
  they return has been rejected, so the TypeError is not seen by their caller.
\<close>

definition closeDB :: "client option \<Rightarrow> world \<Rightarrow> world" where
  "closeDB dbo w =
     (case dbo of
        None \<Rightarrow> w
      | Some dbObj \<Rightarrow> w\<lparr>trace := trace w @ [End (cid dbObj)]\<rparr>)"

text \<open>
  \<open>setExpire\<close> receives the handlers of the caller's promise; the model passes the
  state of that promise and returns the new one.
\<close>

definition setExpire ::
  "client \<Rightarrow> string \<Rightarrow> int \<Rightarrow> promise \<Rightarrow> world \<Rightarrow> promise \<times> world" where
  "setExpire dbObj hKeyLabel cacheDurationInSeconds p w =
     (case db_expire dbObj hKeyLabel cacheDurationInSeconds w of
        (Inr result, w1) \<Rightarrow> (resolve (JNum result) p, closeDB (Some dbObj) w1)
      | (Inl error, w1) \<Rightarrow> (reject (JError error) p, closeDB (Some dbObj) w1))"


section \<open>Cacher\<close>

definition init :: "config_arg \<Rightarrow> cacher \<Rightarrow> cacher" where
  "init cfg c = (CacheDB_init cfg c)\<lparr>cachePrefix := Some ''cacher''\<rparr>"

definition setCachePrefix :: "string \<Rightarrow> cacher \<Rightarrow> cacher" where
  "setCachePrefix name c = c\<lparr>cachePrefix := Some name\<rparr>"

text \<open>
  The template literal \<open>`${this.cachePrefix}:${key}`\<close>; an \<open>undefined\<close> prefix prints as
  the text \<open>undefined\<close>.
\<close>

definition hKeyLabel :: "cacher \<Rightarrow> string \<Rightarrow> string" where
  "hKeyLabel c key =
     (case cachePrefix c of None \<Rightarrow> ''undefined'' | Some p \<Rightarrow> p) @ '':'' @ key"

definition getData :: "json \<Rightarrow> cacher \<Rightarrow> string \<Rightarrow> world \<Rightarrow> promise \<times> world" where
  "getData J c key w =
     (case openDB c w of
        (Threw e, w1) \<Rightarrow> (reject e Pending, w1)
      | (SelectFailed reason, w1) \<Rightarrow> (reject reason Pending, closeDB None w1)
      | (Opened dbObj, w1) \<Rightarrow>
          (case db_get dbObj (hKeyLabel c key) w1 of
             (Inl error, w2) \<Rightarrow> (reject (JError error) Pending, closeDB (Some dbObj) w2)
           | (Inr result, w2) \<Rightarrow>
               (resolve (safeJSONParse J result) Pending, closeDB (Some dbObj) w2)))"

definition setData ::
  "json \<Rightarrow> cacher \<Rightarrow> string \<Rightarrow> jsval \<Rightarrow> int \<Rightarrow> world \<Rightarrow> promise \<times> world" where
  "setData J c key data cacheDurationInSeconds w =
     (case openDB c w of
        (Threw e, w1) \<Rightarrow> (reject e Pending, w1)
      | (SelectFailed reason, w1) \<Rightarrow> (reject reason Pending, closeDB None w1)
      | (Opened dbObj, w1) \<Rightarrow>
          (case db_setex dbObj (hKeyLabel c key) cacheDurationInSeconds (stringify J data) w1 of
             (Inl error, w2) \<Rightarrow> (reject (JError error) Pending, closeDB (Some dbObj) w2)
           | (Inr result, w2) \<Rightarrow> (resolve Undefined Pending, closeDB (Some dbObj) w2)))"

text \<open>
  \<open>setTTL\<close> has no \<open>catch\<close> on \<open>openDB\<close>: when \<open>SELECT\<close> fails its promise stays pending.
  On a truthy reply it resolves first and then hands the same handlers to \<open>setExpire\<close>.
\<close>

definition setTTL :: "json \<Rightarrow> cacher \<Rightarrow> string \<Rightarrow> int \<Rightarrow> world \<Rightarrow> promise \<times> world" where
  "setTTL J c key cacheDurationInSeconds w =
     (case openDB c w of
        (Threw e, w1) \<Rightarrow> (reject e Pending, w1)
      | (SelectFailed reason, w1) \<Rightarrow> (Pending, w1)
      | (Opened dbObj, w1) \<Rightarrow>
          (case db_get dbObj (hKeyLabel c key) w1 of
             (Inl error, w2) \<Rightarrow> (reject (JError error) Pending, w2)
           | (Inr result, w2) \<Rightarrow>
               (if truthy result
                then setExpire dbObj (hKeyLabel c key) cacheDurationInSeconds
                       (resolve (safeJSONParse J result) Pending) w2
                else (reject Undefined Pending, closeDB (Some dbObj) w2))))"

definition deleteData :: "cacher \<Rightarrow> string \<Rightarrow> world \<Rightarrow> promise \<times> world" where
  "deleteData c key w =
     (case openDB c w of
        (Threw e, w1) \<Rightarrow> (reject e Pending, w1)
      | (SelectFailed reason, w1) \<Rightarrow> (Pending, w1)
      | (Opened dbObj, w1) \<Rightarrow>
          (case db_del dbObj (hKeyLabel c key) w1 of
             (Inl error, w2) \<Rightarrow> (reject (JError error) Pending, w2)
           | (Inr result, w2) \<Rightarrow> (resolve Undefined Pending, w2)))"

text \<open>
  The caller's fallback returns a promise; the model runs it on the world and gets the
  settled state of that promise (or \<open>Pending\<close>, if it never settles) and the world after.
  The chain \<open>getData(key).then(...).then(resolve).catch(reject)\<close> passes a rejection of any
  of its stages to \<open>reject\<close>.
\<close>

definition getDataWithFallback ::
  "json \<Rightarrow> cacher \<Rightarrow> string \<Rightarrow> int \<Rightarrow> (world \<Rightarrow> promise \<times> world) \<Rightarrow> world
     \<Rightarrow> promise \<times> world" where
  "getDataWithFallback J c key cacheDurationInSeconds fallback w =
     (case getData J c key w of
        (Pending, w1) \<Rightarrow> (Pending, w1)
      | (Rejected e, w1) \<Rightarrow> (reject e Pending, w1)
      | (Resolved res, w1) \<Rightarrow>
          (if res \<noteq> Null \<and> res \<noteq> Undefined then (resolve res Pending, w1)
           else
             (case fallback (w1\<lparr>trace := trace w1 @ [CallFallback]\<rparr>) of
                (Pending, w2) \<Rightarrow> (Pending, w2)
              | (Rejected e, w2) \<Rightarrow> (reject e Pending, w2)
              | (Resolved r, w2) \<Rightarrow>
                  (case setData J c key r cacheDurationInSeconds w2 of
                     (Pending, w3) \<Rightarrow> (Pending, w3)
                   | (Rejected e, w3) \<Rightarrow> (reject e Pending, w3)
                   | (Resolved u, w3) \<Rightarrow> (resolve r Pending, w3)))))"


text \<open>
  Two readings of the world used to state what an operation meets: \<open>reaches c w\<close> holds
  when \<open>init\<close> was called and the \<open>SELECT\<close> sent next succeeds; \<open>read_fault w\<close> is the
  failure, if any, that an operation sending \<open>SELECT\<close> and then one more command meets.
\<close>

definition reaches :: "cacher \<Rightarrow> world \<Rightarrow> bool" where
  "reaches c w = (config c \<noteq> None \<and> faults w (clock w) = None)"

definition read_fault :: "world \<Rightarrow> string option" where
  "read_fault w =
     (case faults w (clock w) of Some e \<Rightarrow> Some e | None \<Rightarrow> faults w (Suc (clock w)))"


section \<open>Concrete inputs\<close>

definition fresh_world :: world where
  "fresh_world =
     \<lparr>store = (\<lambda>d k. None), faults = (\<lambda>n. None), clock = 0, next_client = 0, trace = []\<rparr>"

definition local_redis :: config_arg where
  "local_redis = \<lparr>arg_url = Some ''127.0.0.1'', arg_port = Some 6379, arg_db = Some 1\<rparr>"

text \<open>A \<open>JSON\<close> that knows two texts; every other string is malformed.\<close>

definition small_json :: json where
  "small_json =
     \<lparr>parse = (\<lambda>s. if s = ''null'' then Some Null
                   else if s = ''12'' then Some (JNum 12) else None),
      stringify = (\<lambda>v. if v = JNum 12 then ''12'' else ''null'')\<rparr>"

definition fallback_12 :: "world \<Rightarrow> promise \<times> world" where
  "fallback_12 w = (Resolved (JNum 12), w)"


definition a_cacher :: cacher where
  "a_cacher = init local_redis new_Cacher"

definition setex_fails :: world where
  "setex_fails = fresh_world\<lparr>faults := (\<lambda>n. if n = 3 then Some ''READONLY'' else None)\<rparr>"

definition get_fails :: world where
  "get_fails = fresh_world\<lparr>faults := (\<lambda>n. if n = 1 then Some ''ECONNRESET'' else None)\<rparr>"

definition holds_12 :: world where
  "holds_12 =
     fresh_world\<lparr>store := (\<lambda>d k. if d = 1 \<and> k = ''cacher:user'' then Some (''12'', 15) else None)\<rparr>"

definition holds_garbage :: world where
  "holds_garbage =
     fresh_world\<lparr>store := (\<lambda>d k. if d = 1 \<and> k = ''cacher:user'' then Some (''{a:'', 15) else None)\<rparr>"

definition expire_fails :: world where
  "expire_fails = holds_12\<lparr>faults := (\<lambda>n. if n = 2 then Some ''ECONNRESET'' else None)\<rparr>"


section \<open>What each operation returns and sends\<close>

lemmas driver_defs =
  issue_def createClient_def db_select_def db_get_def db_setex_def db_expire_def db_del_def

lemmas cacher_defs =
  openDB_def closeDB_def setExpire_def getData_def setData_def setTTL_def deleteData_def
  resolve_def reject_def

lemmas input_defs =
  a_cacher_def init_def CacheDB_init_def new_Cacher_def local_redis_def fresh_world_def
  small_json_def fallback_12_def hKeyLabel_def safeJSONParse_def JSON_parse_def truthy_def

lemma events_since_append [simp]: "trace w' = trace w @ es \<Longrightarrow> events_since w w' = es"
  by (simp add: events_since_def)

lemma openDB_cases:
  "openDB c w =
     (case config c of
        None \<Rightarrow> (Threw (JError ''TypeError''), w)
      | Some cfg \<Rightarrow>
          (case faults w (clock w) of
             Some err \<Rightarrow>
               (SelectFailed (JError err),
                w\<lparr>next_client := Suc (next_client w), clock := Suc (clock w),
                   trace := trace w @ [Connect (next_client w) (port cfg) (url cfg),
                                       Cmd (next_client w) (SELECT (db cfg))]\<rparr>)
           | None \<Rightarrow>
               (Opened \<lparr>cid = next_client w, seldb = db cfg\<rparr>,
                w\<lparr>next_client := Suc (next_client w), clock := Suc (clock w),
                   trace := trace w @ [Connect (next_client w) (port cfg) (url cfg),
                                       Cmd (next_client w) (SELECT (db cfg))]\<rparr>)))"
  by (simp add: openDB_def createClient_def db_select_def issue_def split: option.split)

lemma getData_trace:
  "trace (snd (getData J c key w)) = trace w @
     (case config c of None \<Rightarrow> []
      | Some cfg \<Rightarrow>
         [Connect (next_client w) (port cfg) (url cfg), Cmd (next_client w) (SELECT (db cfg))] @
         (case faults w (clock w) of Some err \<Rightarrow> []
          | None \<Rightarrow> [Cmd (next_client w) (GET (hKeyLabel c key)), End (next_client w)]))"
  by (simp add: getData_def openDB_cases db_get_def issue_def closeDB_def split: option.split)

lemma getData_fst:
  "fst (getData J c key w) =
     (case config c of None \<Rightarrow> Rejected (JError ''TypeError'')
      | Some cfg \<Rightarrow>
         (case read_fault w of Some e \<Rightarrow> Rejected (JError e)
          | None \<Rightarrow> Resolved (safeJSONParse J (map_option fst (store w (db cfg) (hKeyLabel c key))))))"
  by (simp add: getData_def openDB_cases db_get_def issue_def closeDB_def read_fault_def
      resolve_def reject_def split: option.split)

lemma setData_trace:
  "trace (snd (setData J c key data secs w)) = trace w @
     (case config c of None \<Rightarrow> []
      | Some cfg \<Rightarrow>
         [Connect (next_client w) (port cfg) (url cfg), Cmd (next_client w) (SELECT (db cfg))] @
         (case faults w (clock w) of Some err \<Rightarrow> []
          | None \<Rightarrow> [Cmd (next_client w) (SETEX (hKeyLabel c key) secs (stringify J data)),
                     End (next_client w)]))"
  by (simp add: setData_def openDB_cases db_setex_def issue_def closeDB_def split: option.split)

lemma setData_settles: "fst (setData J c key data secs w) \<noteq> Pending"
  by (simp add: setData_def openDB_cases db_setex_def issue_def closeDB_def
      resolve_def reject_def split: option.split)

lemma deleteData_trace:
  "trace (snd (deleteData c key w)) = trace w @
     (case config c of None \<Rightarrow> []
      | Some cfg \<Rightarrow>
         [Connect (next_client w) (port cfg) (url cfg), Cmd (next_client w) (SELECT (db cfg))] @
         (case faults w (clock w) of Some err \<Rightarrow> []
          | None \<Rightarrow> [Cmd (next_client w) (DEL (hKeyLabel c key))]))"
  by (simp add: deleteData_def openDB_cases db_del_def issue_def closeDB_def split: option.split)

lemma setTTL_trace:
  "trace (snd (setTTL J c key secs w)) = trace w @
     (case config c of None \<Rightarrow> []
      | Some cfg \<Rightarrow>
         [Connect (next_client w) (port cfg) (url cfg), Cmd (next_client w) (SELECT (db cfg))] @
         (case faults w (clock w) of Some err \<Rightarrow> []
          | None \<Rightarrow>
              Cmd (next_client w) (GET (hKeyLabel c key)) #
              (case faults w (Suc (clock w)) of Some error \<Rightarrow> []
               | None \<Rightarrow>
                   if truthy (map_option fst (store w (db cfg) (hKeyLabel c key)))
                   then [Cmd (next_client w) (EXPIRE (hKeyLabel c key) secs), End (next_client w)]
                   else [End (next_client w)])))"
  by (simp add: setTTL_def openDB_cases db_get_def db_expire_def setExpire_def issue_def closeDB_def
      split: option.split)

lemma setTTL_fst:
  "fst (setTTL J c key secs w) =
     (case config c of None \<Rightarrow> Rejected (JError ''TypeError'')
      | Some cfg \<Rightarrow>
         (case faults w (clock w) of Some err \<Rightarrow> Pending
          | None \<Rightarrow>
              (case faults w (Suc (clock w)) of Some error \<Rightarrow> Rejected (JError error)
               | None \<Rightarrow>
                   if truthy (map_option fst (store w (db cfg) (hKeyLabel c key)))
                   then Resolved (safeJSONParse J (map_option fst (store w (db cfg) (hKeyLabel c key))))
                   else Rejected Undefined)))"
  by (simp add: setTTL_def openDB_cases db_get_def db_expire_def setExpire_def issue_def closeDB_def
      resolve_def reject_def split: option.split)

lemma getData_no_fallback:
  "CallFallback \<notin> set (events_since w (snd (getData J c key w)))
   \<and> writes (events_since w (snd (getData J c key w))) = []"
  by (simp add: getData_trace split: option.split)


section \<open>Properties\<close>

text \<open>
  C1, as stated, fails. On a miss followed by a successful fallback, the promise of
  \<open>setData\<close> is part of the chain, so a failing cache write rejects
  \<open>getDataWithFallback\<close> with the error of the write: here \<open>SETEX\<close> is refused with
  \<open>READONLY\<close> after the fallback has produced 12, and the caller gets the rejection, not 12.
\<close>

theorem getDataWithFallback_write_failure_counterexample:
  "fst (getData small_json a_cacher ''user'' setex_fails) = Resolved Null
   \<and> fst (fallback_12 (snd (getData small_json a_cacher ''user'' setex_fails))) = Resolved (JNum 12)
   \<and> fst (getDataWithFallback small_json a_cacher ''user'' 15 fallback_12 setex_fails)
       = Rejected (JError ''READONLY'')
   \<and> fst (getDataWithFallback small_json a_cacher ''user'' 15 fallback_12 setex_fails)
       \<noteq> Resolved (JNum 12)"
  by (simp add: getDataWithFallback_def driver_defs cacher_defs input_defs setex_fails_def)

text \<open>
  C1, amended. When \<open>getData\<close> resolves with an absent value and the fallback resolves
  with \<open>r\<close>, the cache write that follows always settles, and it decides the outcome:
  \<open>getDataWithFallback\<close> resolves with \<open>r\<close> when \<open>setData\<close> resolves, and rejects with the
  error of \<open>setData\<close> when the write fails.
\<close>

theorem getDataWithFallback_miss:
  assumes "getData J c key w = (Resolved res, w1)"
    and "absent res"
    and "fallback (w1\<lparr>trace := trace w1 @ [CallFallback]\<rparr>) = (Resolved r, w2)"
  shows "fst (setData J c key r secs w2) \<noteq> Pending
    \<and> (fst (setData J c key r secs w2) = Resolved u \<longrightarrow>
         fst (getDataWithFallback J c key secs fallback w) = Resolved r)
    \<and> (fst (setData J c key r secs w2) = Rejected e \<longrightarrow>
         fst (getDataWithFallback J c key secs fallback w) = Rejected e)"
proof -
  obtain p w3 where sd: "setData J c key r secs w2 = (p, w3)"
    by (cases "setData J c key r secs w2")
  from assms sd show ?thesis
    using setData_settles [of J c key r secs w2]
    by (auto simp: getDataWithFallback_def absent_def resolve_def reject_def split: promise.split)
qed

text \<open>
  The amended C1 at two inputs: a store that accepts every command, and one that refuses
  the \<open>SETEX\<close>.
\<close>

theorem getDataWithFallback_miss_witness:
  "fst (getDataWithFallback small_json a_cacher ''user'' 15 fallback_12 fresh_world)
     = Resolved (JNum 12)
   \<and> fst (getDataWithFallback small_json a_cacher ''user'' 15 fallback_12 setex_fails)
     = Rejected (JError ''READONLY'')"
proof -
  let ?g = "\<lambda>w. getData small_json a_cacher ''user'' w"
  let ?called = "\<lambda>w. (snd (?g w))\<lparr>trace := trace (snd (?g w)) @ [CallFallback]\<rparr>"
  have g1: "?g fresh_world = (Resolved Null, snd (?g fresh_world))"
    by (simp add: prod_eq_iff getData_fst read_fault_def input_defs)
  have g2: "?g setex_fails = (Resolved Null, snd (?g setex_fails))"
    by (simp add: prod_eq_iff getData_fst read_fault_def input_defs setex_fails_def)
  have a: "absent Null"
    by (simp add: absent_def)
  have f1: "fallback_12 (?called fresh_world) = (Resolved (JNum 12), ?called fresh_world)"
    by (simp add: fallback_12_def)
  have f2: "fallback_12 (?called setex_fails) = (Resolved (JNum 12), ?called setex_fails)"
    by (simp add: fallback_12_def)
  have ok: "fst (setData small_json a_cacher ''user'' (JNum 12) 15 (?called fresh_world))
              = Resolved Undefined"
    by (simp add: driver_defs cacher_defs input_defs)
  have ko: "fst (setData small_json a_cacher ''user'' (JNum 12) 15 (?called setex_fails))
              = Rejected (JError ''READONLY'')"
    by (simp add: driver_defs cacher_defs input_defs setex_fails_def)
  from getDataWithFallback_miss [where fallback = fallback_12 and secs = 15 and u = Undefined, OF g1 a f1] ok
  have "fst (getDataWithFallback small_json a_cacher ''user'' 15 fallback_12 fresh_world)
          = Resolved (JNum 12)"
    by simp
  moreover
  from getDataWithFallback_miss [where fallback = fallback_12 and secs = 15 and e = "JError ''READONLY''", OF g2 a f2] ko
  have "fst (getDataWithFallback small_json a_cacher ''user'' 15 fallback_12 setex_fails)
          = Rejected (JError ''READONLY'')"
    by simp
  ultimately show ?thesis by simp
qed

text \<open>
  C2 does not hold of the code. \<open>deleteData\<close> never calls \<open>closeDB\<close>: on a store that
  accepts every command it resolves and the client it created is still open, while
  \<open>getData\<close> on the same input ends its client.
\<close>

theorem deleteData_leaves_client_open:
  "fst (deleteData a_cacher ''user'' fresh_world) = Resolved Undefined
   \<and> left_open (trace (snd (deleteData a_cacher ''user'' fresh_world))) = [0]
   \<and> left_open (trace (snd (getData small_json a_cacher ''user'' fresh_world))) = []"
  by (simp add: driver_defs cacher_defs input_defs left_open_def)

text \<open>
  C3. When the string stored under the key is not valid JSON, \<open>getData\<close> resolves with an
  absent marker; the only rejections are those of the connection or of the store, so no
  parse error ever reaches the caller.
\<close>

theorem getData_malformed:
  assumes "config c = Some cfg"
    and "store w (db cfg) (hKeyLabel c key) = Some (s, secs)"
    and "parse J s = None"
  shows "fst (getData J c key w) =
           (case read_fault w of
              Some e \<Rightarrow> Rejected (JError e)
            | None \<Rightarrow> Resolved (safeJSONParse J (Some s)))
         \<and> absent (safeJSONParse J (Some s))"
  using assms
  by (simp add: getData_fst safeJSONParse_def JSON_parse_def absent_def split: option.split)

text \<open>
  C3 at a store holding the malformed text \<open>{a:\<close> under the key.
\<close>

theorem getData_malformed_witness:
  "fst (getData small_json a_cacher ''user'' holds_garbage) = Resolved Undefined"
  using getData_malformed [of a_cacher "the (config a_cacher)" holds_garbage "''user''" "''{a:''" 15 small_json]
  by (simp add: input_defs holds_garbage_def read_fault_def)

text \<open>
  C4. When the key is not in the store, \<open>getData\<close> resolves with \<open>null\<close>; it rejects
  exactly when \<open>SELECT\<close> or \<open>GET\<close> fails, and then with the error of that command. A miss
  travels on the payload channel, a failure on the error channel.
\<close>

theorem getData_miss:
  assumes "config c = Some cfg"
    and "store w (db cfg) (hKeyLabel c key) = None"
  shows "fst (getData J c key w) =
           (case read_fault w of
              Some e \<Rightarrow> Rejected (JError e)
            | None \<Rightarrow> Resolved Null)"
  using assms
  by (simp add: getData_fst safeJSONParse_def JSON_parse_def split: option.split)

text \<open>
  C4 at an empty store, once reachable and once with a failing \<open>GET\<close>.
\<close>

theorem getData_miss_witness:
  "fst (getData small_json a_cacher ''user'' fresh_world) = Resolved Null
   \<and> fst (getData small_json a_cacher ''user'' get_fails) = Rejected (JError ''ECONNRESET'')"
  using getData_miss [of a_cacher "the (config a_cacher)" fresh_world "''user''" small_json]
    getData_miss [of a_cacher "the (config a_cacher)" get_fails "''user''" small_json]
  by (simp add: input_defs get_fails_def read_fault_def)

text \<open>
  C5. When the connection opens and the key is not in the store, \<open>setTTL\<close> rejects with no
  payload (\<open>reject()\<close>, that is \<open>undefined\<close>); a failing \<open>GET\<close> rejects with its error
  instead, so the two rejections differ, and neither is a resolution.
\<close>

theorem setTTL_missing_key:
  assumes "config c = Some cfg"
    and "faults w (clock w) = None"
    and "store w (db cfg) (hKeyLabel c key) = None"
  shows "fst (setTTL J c key secs w) =
           (case faults w (Suc (clock w)) of
              Some e \<Rightarrow> Rejected (JError e)
            | None \<Rightarrow> Rejected Undefined)"
  using assms by (simp add: setTTL_fst truthy_def split: option.split)

text \<open>
  C5 at an empty store, once reachable and once with a failing \<open>GET\<close>.
\<close>

theorem setTTL_missing_key_witness:
  "fst (setTTL small_json a_cacher ''user'' 30 fresh_world) = Rejected Undefined
   \<and> fst (setTTL small_json a_cacher ''user'' 30 get_fails) = Rejected (JError ''ECONNRESET'')"
  using setTTL_missing_key [of a_cacher "the (config a_cacher)" fresh_world "''user''" small_json 30]
    setTTL_missing_key [of a_cacher "the (config a_cacher)" get_fails "''user''" small_json 30]
  by (simp add: input_defs get_fails_def)

text \<open>
  C6. When \<open>getData\<close> resolves with a value that is neither \<open>null\<close> nor \<open>undefined\<close>,
  \<open>getDataWithFallback\<close> resolves with that value and does nothing more than \<open>getData\<close>
  did: the fallback is not invoked and no \<open>SETEX\<close> is sent.
\<close>

theorem getDataWithFallback_hit:
  assumes "getData J c key w = (Resolved v, w1)"
    and "\<not> absent v"
  shows "getDataWithFallback J c key secs fallback w = (Resolved v, w1)
         \<and> CallFallback \<notin> set (events_since w w1)
         \<and> writes (events_since w w1) = []"
  using assms getData_no_fallback [of w J c key]
  by (simp add: getDataWithFallback_def absent_def resolve_def)

text \<open>
  C6 at a store holding the text \<open>12\<close> under the key: the only traffic is the read.
\<close>

theorem getDataWithFallback_hit_witness:
  "fst (getDataWithFallback small_json a_cacher ''user'' 15 fallback_12 holds_12) = Resolved (JNum 12)
   \<and> events_since holds_12 (snd (getDataWithFallback small_json a_cacher ''user'' 15 fallback_12 holds_12))
       = [Connect 0 (Some 6379) (Some ''127.0.0.1''), Cmd 0 (SELECT 1),
          Cmd 0 (GET ''cacher:user''), End 0]"
proof -
  let ?g = "getData small_json a_cacher ''user'' holds_12"
  have g: "?g = (Resolved (JNum 12), snd ?g)"
    by (simp add: prod_eq_iff getData_fst read_fault_def input_defs holds_12_def)
  have n: "\<not> absent (JNum 12)"
    by (simp add: absent_def)
  have t: "events_since holds_12 (snd ?g) =
             [Connect 0 (Some 6379) (Some ''127.0.0.1''), Cmd 0 (SELECT 1),
              Cmd 0 (GET ''cacher:user''), End 0]"
    by (simp add: getData_trace input_defs holds_12_def)
  from getDataWithFallback_hit [OF g n, where secs = 15 and fallback = fallback_12] t
  show ?thesis by simp
qed

text \<open>
  C7. When \<open>getData\<close> rejects, \<open>getDataWithFallback\<close> rejects with the same error and
  the fallback is not invoked.
\<close>

theorem getDataWithFallback_store_error:
  assumes "getData J c key w = (Rejected e, w1)"
  shows "getDataWithFallback J c key secs fallback w = (Rejected e, w1)
         \<and> CallFallback \<notin> set (events_since w w1)"
  using assms getData_no_fallback [of w J c key]
  by (simp add: getDataWithFallback_def reject_def)

text \<open>
  C7 at a store whose \<open>GET\<close> fails.
\<close>

theorem getDataWithFallback_store_error_witness:
  "fst (getDataWithFallback small_json a_cacher ''user'' 15 fallback_12 get_fails)
     = Rejected (JError ''ECONNRESET'')
   \<and> CallFallback \<notin> set (events_since get_fails
         (snd (getDataWithFallback small_json a_cacher ''user'' 15 fallback_12 get_fails)))"
proof -
  let ?g = "getData small_json a_cacher ''user'' get_fails"
  have g: "?g = (Rejected (JError ''ECONNRESET''), snd ?g)"
    by (simp add: prod_eq_iff getData_fst read_fault_def input_defs get_fails_def)
  from getDataWithFallback_store_error [OF g, where secs = 15 and fallback = fallback_12]
  show ?thesis by simp
qed

text \<open>
  C8. The data commands sent by \<open>getData\<close>, \<open>setData\<close>, \<open>setTTL\<close> and \<open>deleteData\<close>
  for the logical key \<open>k\<close> all carry the key \<open>hKeyLabel c k\<close>, and at least one is sent as
  soon as the connection opens. That label is the prefix, a colon and the key unchanged:
  the prefix is \<open>cacher\<close> after \<open>init\<close>, and the argument of \<open>setCachePrefix\<close> after that
  call.
\<close>

theorem store_key_format:
  "keys_of (events_since w (snd (getData J c k w))) = (if reaches c w then [hKeyLabel c k] else [])
   \<and> keys_of (events_since w (snd (setData J c k data secs w)))
       = (if reaches c w then [hKeyLabel c k] else [])
   \<and> keys_of (events_since w (snd (deleteData c k w)))
       = (if reaches c w then [hKeyLabel c k] else [])
   \<and> set (keys_of (events_since w (snd (setTTL J c k secs w))))
       = (if reaches c w then {hKeyLabel c k} else {})
   \<and> hKeyLabel (init cfg c0) k = ''cacher:'' @ k
   \<and> hKeyLabel (setCachePrefix p c) k = p @ '':'' @ k"
  by (simp add: getData_trace setData_trace deleteData_trace setTTL_trace reaches_def
      hKeyLabel_def init_def setCachePrefix_def split: option.split)

text \<open>
  C9. Whatever the configuration and whatever prefix \<open>setCachePrefix\<close> had set, after
  \<open>init\<close> the cache prefix is the literal \<open>cacher\<close>: \<open>init\<close> discards an earlier custom
  prefix.
\<close>

theorem init_resets_cachePrefix:
  "cachePrefix (init cfg (setCachePrefix p c)) = Some ''cacher''
   \<and> cachePrefix (init cfg c) = Some ''cacher''"
  by (simp add: init_def CacheDB_init_def)

text \<open>
  C10. When the connection opens, the read succeeds and the key holds a stored text (a
  JSON text is never empty, so the reply is truthy), \<open>setTTL\<close> resolves with the
  deserialized value and then sends \<open>EXPIRE\<close>. Nothing is assumed about the outcome of
  \<open>EXPIRE\<close>: the promise is settled before \<open>setExpire\<close> runs, so a failure of \<open>EXPIRE\<close>
  cannot change what the caller gets.
\<close>

theorem setTTL_resolves_before_expire:
  assumes "config c = Some cfg"
    and "faults w (clock w) = None"
    and "faults w (Suc (clock w)) = None"
    and "store w (db cfg) (hKeyLabel c key) = Some (s, old)"
    and "s \<noteq> []"
  shows "fst (setTTL J c key secs w) = Resolved (safeJSONParse J (Some s))
         \<and> Cmd (next_client w) (EXPIRE (hKeyLabel c key) secs)
             \<in> set (events_since w (snd (setTTL J c key secs w)))"
  using assms by (simp add: setTTL_fst setTTL_trace truthy_def)

text \<open>
  C10 at a store holding \<open>12\<close> under the key, where the third command, the \<open>EXPIRE\<close>,
  fails.
\<close>

theorem setTTL_resolves_before_expire_witness:
  "faults expire_fails (clock expire_fails + 2) = Some ''ECONNRESET''
   \<and> fst (setTTL small_json a_cacher ''user'' 30 expire_fails) = Resolved (JNum 12)
   \<and> Cmd 0 (EXPIRE ''cacher:user'' 30)
       \<in> set (events_since expire_fails (snd (setTTL small_json a_cacher ''user'' 30 expire_fails)))"
  using setTTL_resolves_before_expire [of a_cacher "the (config a_cacher)" expire_fails "''user''" "''12''" 15 small_json 30]
  by (simp add: input_defs expire_fails_def holds_12_def)

end
